theory Spec2Isabelle
  imports Complex_Main
begin

section \<open>The numbox widget: data model\<close>

text \<open>
  The script keeps all of its state in global variables and talks to its host through
  calls (\<^verbatim>\<open>outlet\<close>, \<^verbatim>\<open>mgraphics.redraw\<close>, \<^verbatim>\<open>notifyclients\<close>, \<^verbatim>\<open>max.pupdate\<close>, ...)
  and through the attributes of its \<^verbatim>\<open>box\<close>. The model passes the state explicitly:
  a record of the globals, the attributes of the box the script reads, the timers it has
  armed, and the list of host calls made so far, oldest first.

  JavaScript numbers are modelled as real numbers: comparisons, \<^verbatim>\<open>Math.max\<close>,
  \<^verbatim>\<open>Math.min\<close> and \<^verbatim>\<open>Math.round\<close> are exact on them, arithmetic is taken without rounding,
  and \<^verbatim>\<open>NaN\<close> and the infinities appear only as results of \<^verbatim>\<open>parseFloat\<close>, where the
  code tests for them.

  The embedding follows the later of the two variants of the script (the one with arrow
  keys, \<^verbatim>\<open>dbtoa\<close>, \<^verbatim>\<open>notifyclients\<close>, persistence and the cursor reset inside \<^verbatim>\<open>ondrag\<close>).
\<close>

datatype effect =
    Outlet0 real
  | Outlet1Bang
  | Redraw
  | NotifyClients
  | HideCursor
  | ShowCursor
  | PUpdate real real
  | Post string

text \<open>
  What \<^verbatim>\<open>box.getattr("jsarguments")\<close> can give: nothing, one string, or an array whose
  entries are listed here by their \<^verbatim>\<open>toString()\<close>.
\<close>

datatype jsargs = ArgsAbsent | ArgsString string | ArgsArray "string list"

text \<open>
  The attributes of the box that the script reads. A range that is missing or is not an
  array is \<open>None\<close>; \<^verbatim>\<open>_parameter_initial_enable\<close> is kept by its truthiness; an initial
  value or unit style that is \<^verbatim>\<open>null\<close> or \<^verbatim>\<open>undefined\<close> is \<open>None\<close>.
\<close>

record inspector =
  parameter_range :: "real list option"
  parameter_initial_enable :: bool
  parameter_initial :: "real option"
  parameter_unitstyle :: "int option"
  parameter_type :: "int option"
  jsarguments :: jsargs

record numbox =
  box :: inspector
  currentValue :: real
  minValue :: real
  maxValue :: real
  initialValue :: real
  textJustification :: string
  activeState :: int
  normalStepSize :: real
  fineStepSize :: real
  displayText :: string
  outputValue :: real
  isDragging :: bool
  dragStartY :: real
  dragStartValue :: real
  lastDragY :: real
  cursorOrigin :: "real \<times> real"
  isEditing :: bool
  editText :: string
  hasFocus :: bool
  showCursor :: bool
  clickedInside :: bool
  cursorTimer :: bool
  focusTasks :: nat
  effects :: "effect list"

text \<open>
  \<open>cursorTimer\<close> says whether the blink task is scheduled; \<open>focusTasks\<close> counts the
  one-shot tasks that \<^verbatim>\<open>globalMouse\<close> has scheduled and that have not run yet.
\<close>

definition emit :: "effect \<Rightarrow> numbox \<Rightarrow> numbox" where
  "emit e s = s\<lparr>effects := effects s @ [e]\<rparr>"

text \<open>The values sent to the primary outlet, in order.\<close>

fun outlet0 :: "effect list \<Rightarrow> real list" where
  "outlet0 [] = []"
| "outlet0 (Outlet0 v # es) = v # outlet0 es"
| "outlet0 (e # es) = outlet0 es"

section \<open>Number formatting and parsing of the host language\<close>

fun decimal :: "nat \<Rightarrow> string" where
  "decimal n = (if n < 10 then [char_of (48 + n)]
                else decimal (n div 10) @ [char_of (48 + n mod 10)])"

declare decimal.simps [simp del]

text \<open>\<^verbatim>\<open>Math.round(x).toString()\<close>: round half up, then the decimal digits.\<close>

definition roundToString :: "real \<Rightarrow> string" where
  "roundToString x =
     (let n = \<lfloor>x + 1 / 2\<rfloor>
      in if n < 0 then CHR ''-'' # decimal (nat (- n)) else decimal (nat n))"

text \<open>
  \<^verbatim>\<open>x.toFixed(f)\<close>: the sign is split off, the magnitude is scaled by \<open>10 ^ f\<close> and
  rounded to the nearest integer (the larger one on a tie), and the digits are padded
  with zeros to \<open>f + 1\<close> places before the point is put in. (From \<open>10 ^ 21\<close> on the
  language switches to exponent notation, which is not modelled.)
\<close>

definition toFixed :: "nat \<Rightarrow> real \<Rightarrow> string" where
  "toFixed f x =
     (let a = \<bar>x\<bar>;
          n = nat \<lfloor>a * 10 ^ f + 1 / 2\<rfloor>;
          m = decimal n;
          m = replicate (Suc f - length m) (CHR ''0'') @ m;
          k = length m - f
      in (if x < 0 then ''-'' else '''') @ take k m @
         (if f = 0 then '''' else CHR ''.'' # drop k m))"

text \<open>
  \<^verbatim>\<open>parseFloat\<close>: leading white space is skipped, then the longest prefix that is a
  decimal literal is read: a sign, \<^verbatim>\<open>Infinity\<close> or digits with an optional fraction and
  an optional exponent. Anything after that prefix is ignored. No such prefix gives
  \<^verbatim>\<open>NaN\<close>.
\<close>

datatype parsed = NaN | Infinite bool | Finite real

definition isDigit :: "char \<Rightarrow> bool" where
  "isDigit c = (48 \<le> (of_char c :: nat) \<and> (of_char c :: nat) \<le> 57)"

definition isWhiteSpace :: "char \<Rightarrow> bool" where
  "isWhiteSpace c = ((of_char c :: nat) \<in> {9, 10, 11, 12, 13, 32})"

fun digitsValue :: "nat \<Rightarrow> string \<Rightarrow> nat" where
  "digitsValue acc [] = acc"
| "digitsValue acc (c # cs) = digitsValue (10 * acc + (of_char c - 48)) cs"

text \<open>The exponent part after the mantissa: \<open>e\<close> or \<open>E\<close>, a sign, at least one digit.\<close>

definition exponentPart :: "string \<Rightarrow> int" where
  "exponentPart r =
     (case r of
        [] \<Rightarrow> 0
      | c # r1 \<Rightarrow>
          if c = CHR ''e'' \<or> c = CHR ''E'' then
            (let neg = (case r1 of [] \<Rightarrow> False | d # _ \<Rightarrow> d = CHR ''-'');
                 r2 = (case r1 of [] \<Rightarrow> []
                       | d # r' \<Rightarrow> if d = CHR ''-'' \<or> d = CHR ''+'' then r' else r1);
                 ds = takeWhile isDigit r2
             in if ds = [] then 0
                else if neg then - int (digitsValue 0 ds) else int (digitsValue 0 ds))
          else 0)"

definition scale10 :: "real \<Rightarrow> int \<Rightarrow> real" where
  "scale10 v e = (if e < 0 then v / 10 ^ nat (- e) else v * 10 ^ nat e)"

definition unsignedLiteral :: "string \<Rightarrow> real option" where
  "unsignedLiteral r =
     (let ip = takeWhile isDigit r;
          r1 = dropWhile isDigit r;
          dot = (case r1 of [] \<Rightarrow> False | c # _ \<Rightarrow> c = CHR ''.'');
          fp = (if dot then takeWhile isDigit (tl r1) else []);
          r2 = (if dot then dropWhile isDigit (tl r1) else r1)
      in if ip = [] \<and> fp = [] then None
         else Some (scale10
                (real (digitsValue 0 ip) + real (digitsValue 0 fp) / 10 ^ length fp)
                (exponentPart r2)))"

definition parseFloat :: "string \<Rightarrow> parsed" where
  "parseFloat str =
     (let r = dropWhile isWhiteSpace str;
          neg = (case r of [] \<Rightarrow> False | c # _ \<Rightarrow> c = CHR ''-'');
          r1 = (case r of [] \<Rightarrow> []
                | c # r' \<Rightarrow> if c = CHR ''-'' \<or> c = CHR ''+'' then r' else r)
      in if take 8 r1 = ''Infinity'' then Infinite (\<not> neg)
         else case unsignedLiteral r1 of
                None \<Rightarrow> NaN
              | Some v \<Rightarrow> Finite (if neg then - v else v))"

text \<open>\<^verbatim>\<open>String.prototype.toLowerCase\<close> on the letters that matter here, A to Z.\<close>

definition toLowerChar :: "char \<Rightarrow> char" where
  "toLowerChar c =
     (if 65 \<le> (of_char c :: nat) \<and> (of_char c :: nat) \<le> 90
      then char_of ((of_char c :: nat) + 32) else c)"

definition toLowerCase :: "string \<Rightarrow> string" where
  "toLowerCase str = map toLowerChar str"

section \<open>Reading the inspector\<close>

text \<open>
  The expression \<^verbatim>\<open>Math.max(minValue, Math.min(maxValue, v))\<close>, which the script writes
  out at every place where it limits a value to the range.
\<close>

definition clamp :: "real \<Rightarrow> real \<Rightarrow> real \<Rightarrow> real" where
  "clamp lo hi v = max lo (min hi v)"


definition getUnitStyle :: "numbox \<Rightarrow> int" where
  "getUnitStyle s = (case parameter_unitstyle (box s) of None \<Rightarrow> 0 | Some u \<Rightarrow> u)"

definition dbtoa :: "real \<Rightarrow> real" where
  "dbtoa dB = 10 powr (dB / 20)"

text \<open>
  The \<^verbatim>\<open>switch\<close> of \<^verbatim>\<open>updateDisplay\<close>: for a unit style and a value, the text shown and
  the value sent out.
\<close>

definition unitStyleTable :: "int \<Rightarrow> real \<Rightarrow> string \<times> real" where
  "unitStyleTable unitStyle v =
     (if unitStyle = 0 then (roundToString v, v)
      else if unitStyle = 1 then (toFixed 2 v, v)
      else if unitStyle = 2 then (toFixed 1 v @ '' ms'', v)
      else if unitStyle = 3 then (roundToString v @ '' Hz'', v)
      else if unitStyle = 4 then
        (if v \<le> - 80 then (''-inf'', 0) else (toFixed 1 v @ '' dB'', dbtoa v))
      else if unitStyle = 5 then (roundToString v @ '' %'', v)
      else if unitStyle = 6 then (toFixed 2 v, v)
      else if unitStyle = 7 then (toFixed 1 v @ '' st'', v)
      else if unitStyle = 8 then (roundToString v, v)
      else if unitStyle = 9 then (toFixed 2 v, v)
      else if unitStyle = 10 then (toFixed 2 v, v)
      else (toFixed 1 v, v))"

definition updateDisplay :: "numbox \<Rightarrow> numbox" where
  "updateDisplay s =
     (if isEditing s then s\<lparr>displayText := editText s, outputValue := currentValue s\<rparr>
      else s\<lparr>displayText := fst (unitStyleTable (getUnitStyle s) (currentValue s)),
             outputValue := snd (unitStyleTable (getUnitStyle s) (currentValue s))\<rparr>)"

text \<open>\<^verbatim>\<open>if (activeState) outlet(0, outputValue)\<close>, the line every emitting path ends with.\<close>

definition outputIfActive :: "numbox \<Rightarrow> numbox" where
  "outputIfActive s = (if activeState s \<noteq> 0 then emit (Outlet0 (outputValue s)) s else s)"

definition updateRange :: "numbox \<Rightarrow> numbox" where
  "updateRange s =
     (case parameter_range (box s) of
        None \<Rightarrow> s
      | Some rangeAttr \<Rightarrow>
          if length rangeAttr \<ge> 2 then
            (let s1 = s\<lparr>minValue := rangeAttr ! 0, maxValue := rangeAttr ! 1\<rparr>;
                 newValue = clamp (minValue s1) (maxValue s1) (currentValue s1)
             in if newValue \<noteq> currentValue s1
                then outputIfActive (updateDisplay (s1\<lparr>currentValue := newValue\<rparr>))
                else s1)
          else s)"

definition updateInitialValue :: "numbox \<Rightarrow> numbox" where
  "updateInitialValue s =
     (if parameter_initial_enable (box s) then
        (case parameter_initial (box s) of
           None \<Rightarrow> s
         | Some initialAttr \<Rightarrow> s\<lparr>initialValue := initialAttr\<rparr>)
      else s\<lparr>initialValue := 0\<rparr>)"

section \<open>Justification from the jsarguments\<close>

definition argsArray :: "jsargs \<Rightarrow> string list" where
  "argsArray jsArgs =
     (case jsArgs of
        ArgsAbsent \<Rightarrow> []
      | ArgsString a \<Rightarrow> (if a = [] then [] else [a])
      | ArgsArray xs \<Rightarrow> xs)"

text \<open>The loop over the arguments, with \<^verbatim>\<open>foundJustifications\<close> as the accumulator.\<close>

fun foundJustifications :: "string list \<Rightarrow> string list \<Rightarrow> string list" where
  "foundJustifications found [] = found"
| "foundJustifications found (a # as) =
     (let arg = toLowerCase a
      in if arg = ''left'' \<or> arg = ''centre'' \<or> arg = ''center'' \<or> arg = ''right''
         then foundJustifications (found @ [if arg = ''center'' then ''centre'' else arg]) as
         else foundJustifications found as)"

definition parseJustificationArgs :: "numbox \<Rightarrow> numbox" where
  "parseJustificationArgs s =
     (let found = foundJustifications [] (argsArray (jsarguments (box s)))
      in if length found > 1 then
           (emit (Post (''conflict found: justifications conflict, defaulted to ''
                        @ [CHR 0x22] @ ''centre'' @ [CHR 0x22, CHR 0x0A])) s)
             \<lparr>textJustification := ''centre''\<rparr>
         else if length found = 1 then s\<lparr>textJustification := found ! 0\<rparr>
         else s\<lparr>textJustification := ''centre''\<rparr>)"

section \<open>Messages\<close>


definition msg_float :: "real \<Rightarrow> numbox \<Rightarrow> numbox" where
  "msg_float x s =
     (let s1 = updateInitialValue (updateRange s);
          s2 = s1\<lparr>currentValue := clamp (minValue s1) (maxValue s1) x\<rparr>;
          s3 = emit NotifyClients (emit Redraw (updateDisplay s2))
      in outputIfActive s3)"

definition getvalueof :: "numbox \<Rightarrow> real" where
  "getvalueof s = currentValue s"

definition setvalueof :: "real \<Rightarrow> numbox \<Rightarrow> numbox" where
  "setvalueof v s =
     (let s1 = updateRange s;
          s2 = s1\<lparr>currentValue := clamp (minValue s1) (maxValue s1) v\<rparr>;
          s3 = emit Redraw (updateDisplay s2)
      in outputIfActive s3)"

section \<open>Text editing\<close>

definition commitEdit :: "numbox \<Rightarrow> numbox" where
  "commitEdit s =
     (if isEditing s then
        (let s1 = s\<lparr>cursorTimer := False\<rparr>;
             clamped = (case parseFloat (editText s1) of
                          NaN \<Rightarrow> None
                        | Infinite up \<Rightarrow>
                            Some (if up then max (minValue s1) (maxValue s1) else minValue s1)
                        | Finite v \<Rightarrow> Some (clamp (minValue s1) (maxValue s1) v));
             s2 = (case clamped of
                     None \<Rightarrow> s1
                   | Some newValue \<Rightarrow>
                       outputIfActive
                         (emit NotifyClients (updateDisplay (s1\<lparr>currentValue := newValue\<rparr>))))
         in emit Redraw (updateDisplay (s2\<lparr>isEditing := False\<rparr>)))
      else s)"

definition cancelEdit :: "numbox \<Rightarrow> numbox" where
  "cancelEdit s =
     (if isEditing s then
        emit Redraw (updateDisplay (s\<lparr>cursorTimer := False, isEditing := False, editText := []\<rparr>))
      else s)"

text \<open>The body of the blink task, and the task firing when it is due.\<close>

definition toggleCursor :: "numbox \<Rightarrow> numbox" where
  "toggleCursor s =
     (if isEditing s
      then (emit Redraw (s\<lparr>showCursor := \<not> showCursor s\<rparr>))\<lparr>cursorTimer := True\<rparr>
      else s)"

definition cursorTimerFires :: "numbox \<Rightarrow> numbox" where
  "cursorTimerFires s = (if cursorTimer s then toggleCursor (s\<lparr>cursorTimer := False\<rparr>) else s)"

definition keyInput :: "int \<Rightarrow> numbox \<Rightarrow> numbox" where
  "keyInput charCode s =
     (if \<not> hasFocus s then s
      else if charCode = 30 \<or> charCode = 31 then
        (let s1 = (if isEditing s then commitEdit s else s);
             step = (if charCode = 30 then normalStepSize s1 else - normalStepSize s1);
             s2 = updateRange s1;
             newValue = clamp (minValue s2) (maxValue s2) (currentValue s2 + step)
         in if newValue \<noteq> currentValue s2
            then outputIfActive
                   (emit NotifyClients (emit Redraw (updateDisplay (s2\<lparr>currentValue := newValue\<rparr>))))
            else s2)
      else if \<not> ((48 \<le> charCode \<and> charCode \<le> 57) \<or> charCode = 46 \<or> charCode = 45
                  \<or> charCode = 127 \<or> charCode = 13 \<or> charCode = 3 \<or> charCode = 27)
      then s
      else
        (let s1 = (if (48 \<le> charCode \<and> charCode \<le> 57) \<or> charCode = 46 \<or> charCode = 45 then
                     (if \<not> isEditing s then
                        emit Redraw (updateDisplay
                          (s\<lparr>isEditing := True, editText := [char_of (nat charCode)],
                             showCursor := True, cursorTimer := True\<rparr>))
                      else
                        emit Redraw (updateDisplay
                          (s\<lparr>editText := editText s @ [char_of (nat charCode)]\<rparr>)))
                   else s)
         in if isEditing s1 then
              (if charCode = 127 then
                 (if length (editText s1) > 0
                  then emit Redraw (updateDisplay (s1\<lparr>editText := butlast (editText s1)\<rparr>))
                  else s1)
               else if charCode = 13 \<or> charCode = 3 then commitEdit s1
               else if charCode = 27 then cancelEdit s1
               else s1)
            else s1))"

section \<open>Pointer\<close>

definition onclick :: "real \<Rightarrow> numbox \<Rightarrow> numbox" where
  "onclick y s =
     (let s1 = emit Redraw (s\<lparr>clickedInside := True, hasFocus := True\<rparr>);
          s2 = s1\<lparr>isDragging := True, dragStartY := y, lastDragY := y,
                  dragStartValue := currentValue s1\<rparr>
      in emit Outlet1Bang (updateInitialValue (updateRange s2)))"

definition ondblclick :: "numbox \<Rightarrow> numbox" where
  "ondblclick s =
     (let s1 = updateInitialValue s;
          s2 = s1\<lparr>currentValue := initialValue s1\<rparr>
      in outputIfActive (emit NotifyClients (emit Redraw (updateDisplay s2))))"

text \<open>
  \<^verbatim>\<open>ondrag(x, y, button, cmd, shift, ...)\<close>: only \<open>y\<close>, and the truthiness of \<open>button\<close> and
  \<open>shift\<close>, are read.
\<close>

definition ondrag :: "real \<Rightarrow> bool \<Rightarrow> bool \<Rightarrow> numbox \<Rightarrow> numbox" where
  "ondrag y button shift s =
     (if isDragging s then
        (let s1 = emit HideCursor s
         in if \<bar>lastDragY s1\<bar> > 30 then
              (emit (PUpdate (fst (cursorOrigin s1)) (snd (cursorOrigin s1))) s1)
                \<lparr>lastDragY := y\<rparr>
            else
              (let deltaY = lastDragY s1 - y;
                   stepSize = (if shift then fineStepSize s1 else normalStepSize s1);
                   newValue = currentValue s1 + deltaY * stepSize;
                   newValue = clamp (minValue s1) (maxValue s1) newValue;
                   s2 = (if newValue \<noteq> currentValue s1
                         then outputIfActive
                                (emit NotifyClients
                                   (emit Redraw (updateDisplay (s1\<lparr>currentValue := newValue\<rparr>))))
                         else s1);
                   s3 = s2\<lparr>lastDragY := y\<rparr>
               in if \<not> button then
                    (emit ShowCursor
                       (emit (PUpdate (fst (cursorOrigin s3)) (snd (cursorOrigin s3))) s3))
                      \<lparr>isDragging := False\<rparr>
                  else s3))
      else s)"

text \<open>
  \<^verbatim>\<open>globalMouse\<close> schedules a one-shot task one millisecond ahead; \<open>focusCheck\<close> is the
  body of that task and \<open>focusTaskRuns\<close> is one scheduled task coming due. Of
  \<open>leftClick\<close> only the truthiness is read.
\<close>

definition globalMouse :: "bool \<Rightarrow> real \<Rightarrow> real \<Rightarrow> numbox \<Rightarrow> numbox" where
  "globalMouse leftClick globalX globalY s =
     (let s1 = s\<lparr>cursorOrigin := (globalX, globalY)\<rparr>
      in if leftClick \<and> hasFocus s1 then s1\<lparr>focusTasks := Suc (focusTasks s1)\<rparr> else s1)"

definition focusCheck :: "numbox \<Rightarrow> numbox" where
  "focusCheck s =
     (let s1 = (if \<not> clickedInside s then
                  (let s' = emit Redraw (s\<lparr>hasFocus := False\<rparr>)
                   in if isEditing s' then commitEdit s' else s')
                else s)
      in s1\<lparr>clickedInside := False\<rparr>)"

definition focusTaskRuns :: "numbox \<Rightarrow> numbox" where
  "focusTaskRuns s =
     (if focusTasks s = 0 then s else focusCheck (s\<lparr>focusTasks := focusTasks s - 1\<rparr>))"

definition onidleout :: "numbox \<Rightarrow> numbox" where
  "onidleout s = (if isDragging s then emit ShowCursor (s\<lparr>isDragging := False\<rparr>) else s)"

section \<open>Attribute changes, persistence, start\<close>


text \<open>
  The first message \<^verbatim>\<open>save\<close> embeds: the arguments \<^verbatim>\<open>restoreInternalState\<close> is called
  with when the patcher is loaded again.
\<close>

record persisted =
  savedValue :: real
  savedMin :: real
  savedMax :: real
  savedInitial :: real
  savedJustification :: string
  savedActive :: int

definition save :: "numbox \<Rightarrow> persisted" where
  "save s = \<lparr>savedValue = currentValue s, savedMin = minValue s, savedMax = maxValue s,
             savedInitial = initialValue s, savedJustification = textJustification s,
             savedActive = activeState s\<rparr>"

definition restoreInternalState ::
    "real \<Rightarrow> real \<Rightarrow> real \<Rightarrow> real \<Rightarrow> string \<Rightarrow> int \<Rightarrow> numbox \<Rightarrow> numbox" where
  "restoreInternalState v mn mx initial justification act s =
     emit (Post (''RESTORED: Internal state restored'' @ [CHR 0x0A]))
       (emit Redraw
          (updateDisplay
             (s\<lparr>currentValue := v, minValue := mn, maxValue := mx, initialValue := initial,
                textJustification := justification, activeState := act\<rparr>)))"

definition restore :: "persisted \<Rightarrow> numbox \<Rightarrow> numbox" where
  "restore r s =
     restoreInternalState (savedValue r) (savedMin r) (savedMax r) (savedInitial r)
       (savedJustification r) (savedActive r) s"

definition loadbang :: "numbox \<Rightarrow> numbox" where
  "loadbang s = emit Redraw (emit NotifyClients (updateDisplay (parseJustificationArgs s)))"

text \<open>
  The globals as the script initialises them, over a given inspector, after the
  top-level \<^verbatim>\<open>parseJustificationArgs()\<close> and \<^verbatim>\<open>loadbang\<close> have run.
\<close>

definition globals :: "inspector \<Rightarrow> numbox" where
  "globals bx =
     \<lparr>box = bx, currentValue = - 10, minValue = - 100, maxValue = 100, initialValue = 0,
      textJustification = ''centre'', activeState = 1, normalStepSize = 1 / 2,
      fineStepSize = 2 / 100, displayText = [], outputValue = 0, isDragging = False,
      dragStartY = 0, dragStartValue = 0, lastDragY = 0, cursorOrigin = (0, 0),
      isEditing = False, editText = [], hasFocus = False, showCursor = True,
      clickedInside = False, cursorTimer = False, focusTasks = 0, effects = []\<rparr>"

definition loaded :: "inspector \<Rightarrow> numbox" where
  "loaded bx = loadbang (parseJustificationArgs (globals bx))"

section \<open>Example inputs\<close>

text \<open>
  An inspector with a given range, unit style and jsarguments, and nothing else set;
  \<open>loaded\<close> over it is the widget as it stands after the patcher has been opened.
\<close>

definition inspectorWith :: "real list option \<Rightarrow> int option \<Rightarrow> jsargs \<Rightarrow> inspector" where
  "inspectorWith rng style args =
     \<lparr>parameter_range = rng, parameter_initial_enable = False, parameter_initial = None,
      parameter_unitstyle = style, parameter_type = Some 0, jsarguments = args\<rparr>"

text \<open>The inspector's range being edited while the widget is running.\<close>

definition rangeEdited :: "real list \<Rightarrow> numbox \<Rightarrow> numbox" where
  "rangeEdited r s = s\<lparr>box := (box s)\<lparr>parameter_range := Some r\<rparr>\<rparr>"

text \<open>
  Under the decibel style with the value at -90: the widget is clicked and the minus key
  is pressed, so that an edit session is open on the buffer \<open>-\<close>.
\<close>

definition decibelEdit :: numbox where
  "decibelEdit =
     keyInput 45 (onclick 5 (msg_float (- 90) (loaded (inspectorWith None (Some 4) ArgsAbsent))))"

text \<open>With the range 0 to 100: the widget is clicked and the keys 4 and 2 are pressed.\<close>

definition typed42 :: numbox where
  "typed42 =
     keyInput 50 (keyInput 52 (onclick 5 (loaded (inspectorWith (Some [0, 100]) None ArgsAbsent))))"

text \<open>
  The value is set to 0 and the pointer goes down at height 10 (\<open>pressedAt10\<close>); from
  there the pointer is dragged down to height 35 (\<open>draggedTo35\<close>).
\<close>

definition pressedAt10 :: numbox where
  "pressedAt10 = onclick 10 (msg_float 0 (loaded (inspectorWith None (Some 1) ArgsAbsent)))"

definition draggedTo35 :: numbox where
  "draggedTo35 = ondrag 35 True False pressedAt10"

text \<open>
  The widget is clicked, the global observer reports that same click and its deferred
  check runs, and the key 4 opens an edit session (\<open>focusedEditing\<close>); then a left click
  elsewhere is reported (\<open>clickedElsewhere\<close>).
\<close>

definition focusedEditing :: numbox where
  "focusedEditing =
     keyInput 52 (focusTaskRuns (globalMouse True 100 200
       (onclick 5 (loaded (inspectorWith None None ArgsAbsent)))))"

definition clickedElsewhere :: numbox where
  "clickedElsewhere = globalMouse True 300 400 focusedEditing"

text \<open>The inspector gives the range with its bounds the other way round.\<close>

definition invertedRange :: numbox where
  "invertedRange = loaded (inspectorWith (Some [10, 0]) None ArgsAbsent)"

section \<open>What the justification loop computes\<close>



section \<open>Auxiliary facts\<close>

lemma outlet0_append: "outlet0 (xs @ ys) = outlet0 xs @ outlet0 ys"
  by (induction xs rule: outlet0.induct) simp_all

lemma clamp_inside: "lo \<le> v \<Longrightarrow> v \<le> hi \<Longrightarrow> clamp lo hi v = v"
  by (simp add: clamp_def)

lemma clamp_bounds: "lo \<le> hi \<Longrightarrow> lo \<le> clamp lo hi v \<and> clamp lo hi v \<le> hi"
  by (simp add: clamp_def)

text \<open>
  The script does not compare the two bounds it reads. Should the inspector give them
  the other way round, the lower bound wins.
\<close>

lemma clamp_inverted: "hi < lo \<Longrightarrow> clamp lo hi v = lo"
  by (simp add: clamp_def)

lemmas step_defs = emit_def updateDisplay_def outputIfActive_def updateRange_def
  updateInitialValue_def Let_def

lemma unitStyleTable_passes: "unitStyle \<noteq> 4 \<Longrightarrow> snd (unitStyleTable unitStyle v) = v"
  by (simp add: unitStyleTable_def)

lemma updateRange_cases:
  "updateRange s = s \<or> (\<exists>r. parameter_range (box s) = Some r \<and> 2 \<le> length r)"
  by (auto simp: updateRange_def split: option.splits)

lemma updateRange_fields:
  assumes "parameter_range (box s) = Some r" "2 \<le> length r"
  shows "minValue (updateRange s) = r ! 0" "maxValue (updateRange s) = r ! 1"
    "currentValue (updateRange s) = clamp (r ! 0) (r ! 1) (currentValue s)"
  using assms by (simp_all add: step_defs)

lemma updateRange_steady:
  assumes "minValue (updateRange s) \<le> currentValue s"
      and "currentValue s \<le> maxValue (updateRange s)"
  shows "updateRange s =
           s\<lparr>minValue := minValue (updateRange s), maxValue := maxValue (updateRange s)\<rparr>"
proof (cases "updateRange s = s")
  case True
  then show ?thesis by simp
next
  case False
  then obtain r where r: "parameter_range (box s) = Some r" "2 \<le> length r"
    using updateRange_cases [of s] by blast
  have "clamp (r ! 0) (r ! 1) (currentValue s) = currentValue s"
    using assms updateRange_fields(1,2) [OF r] by (simp add: clamp_inside)
  then show ?thesis using r by (simp add: updateRange_def Let_def)
qed

lemma msg_float_fields:
  "minValue (msg_float x s) = minValue (updateRange s) \<and>
   maxValue (msg_float x s) = maxValue (updateRange s) \<and>
   currentValue (msg_float x s) = clamp (minValue (updateRange s)) (maxValue (updateRange s)) x"
  by (simp add: msg_float_def step_defs split: option.splits)

lemma setvalueof_fields:
  "minValue (setvalueof x s) = minValue (updateRange s) \<and>
   maxValue (setvalueof x s) = maxValue (updateRange s) \<and>
   currentValue (setvalueof x s) = clamp (minValue (updateRange s)) (maxValue (updateRange s)) x"
  by (simp add: setvalueof_def step_defs split: option.splits)

lemma dbtoa_minus6: "\<bar>dbtoa (- 6) - 5012 / 10000\<bar> < 1 / 10000"
proof -
  define y :: real where "y = 10 powr (- 3 / 10)"
  have pos: "0 < y" by (simp add: y_def)
  have "y ^ 10 = y powr (real 10)"
    using pos by (simp only: powr_realpow)
  also have "\<dots> = 10 powr (- 3)"
    unfolding y_def by (simp add: powr_powr)
  also have "\<dots> = 1 / 1000"
    by (simp add: powr_minus_divide)
  finally have p: "y ^ 10 = 1 / 1000" .
  have "(5011 / 10000 :: real) ^ 10 < 1 / 1000" by (simp add: power_divide)
  then have "(5011 / 10000 :: real) ^ 10 < y ^ 10" unfolding p .
  then have lo: "5011 / 10000 < y"
    using pos by (meson less_eq_real_def power_less_imp_less_base)
  have "1 / 1000 < (5013 / 10000 :: real) ^ 10" by (simp add: power_divide)
  then have "y ^ 10 < (5013 / 10000 :: real) ^ 10" unfolding p .
  then have hi: "y < 5013 / 10000"
    by (rule power_less_imp_less_base) simp
  have "dbtoa (- 6) = y" by (simp add: dbtoa_def y_def)
  moreover have "\<bar>y - 5012 / 10000\<bar> < 1 / 10000" using lo hi by linarith
  ultimately show ?thesis by simp
qed

lemma commitEdit_always:
  assumes "isEditing s"
  shows "\<not> isEditing (commitEdit s)" "\<not> cursorTimer (commitEdit s)"
    "minValue (commitEdit s) = minValue s" "maxValue (commitEdit s) = maxValue s"
    "outputValue (commitEdit s) =
       snd (unitStyleTable (getUnitStyle s) (currentValue (commitEdit s)))"
  using assms
  by (simp_all add: commitEdit_def step_defs getUnitStyle_def split: parsed.splits option.splits)

lemma commitEdit_unparseable:
  assumes "isEditing s" "parseFloat (editText s) = NaN"
  shows "currentValue (commitEdit s) = currentValue s"
    "effects (commitEdit s) = effects s @ [Redraw]"
  using assms by (simp_all add: commitEdit_def step_defs)

lemma commitEdit_parseable:
  assumes "isEditing s" "parseFloat (editText s) \<noteq> NaN"
  shows "effects (commitEdit s) = effects s @ NotifyClients #
       (if activeState s \<noteq> 0 then [Outlet0 (currentValue (commitEdit s))] else []) @ [Redraw]"
  using assms by (simp add: commitEdit_def step_defs split: parsed.splits)

lemma commitEdit_finite:
  assumes "isEditing s" "parseFloat (editText s) = Finite v"
  shows "currentValue (commitEdit s) = clamp (minValue s) (maxValue s) v"
  using assms by (simp add: commitEdit_def step_defs)


lemma restore_save:
  "currentValue (restore (save s) t) = currentValue s \<and>
   minValue (restore (save s) t) = minValue s \<and>
   maxValue (restore (save s) t) = maxValue s \<and>
   initialValue (restore (save s) t) = initialValue s \<and>
   textJustification (restore (save s) t) = textJustification s \<and>
   activeState (restore (save s) t) = activeState s"
  by (simp add: restore_def save_def restoreInternalState_def emit_def updateDisplay_def)

section \<open>Setting the value\<close>

text \<open>
  Claim C1. A request to set the value to \<open>x\<close> (\<^verbatim>\<open>msg_float\<close>, \<^verbatim>\<open>setvalueof\<close>) first
  refreshes the cached range and then sets \<open>currentValue\<close> to
  \<^verbatim>\<open>Math.max(minValue, Math.min(maxValue, x))\<close> over the refreshed bounds. That is \<open>x\<close>
  when \<open>minValue \<le> x \<le> maxValue\<close>, \<open>minValue\<close> when \<open>x < minValue\<close>, and \<open>maxValue\<close>
  when \<open>x > maxValue\<close> and the bounds are in order (\<open>minValue \<le> maxValue\<close>); when the
  inspector gives the bounds the other way round (\<open>maxValue < minValue\<close>) the result is
  \<open>minValue\<close> for every \<open>x\<close>.
\<close>

theorem setValue_clamps:
  "\<forall>s' \<in> {msg_float x s, setvalueof x s}.
      minValue s' = minValue (updateRange s) \<and> maxValue s' = maxValue (updateRange s) \<and>
      currentValue s' = max (minValue s') (min (maxValue s') x) \<and>
      (minValue s' \<le> x \<and> x \<le> maxValue s' \<longrightarrow> currentValue s' = x) \<and>
      (x < minValue s' \<longrightarrow> currentValue s' = minValue s') \<and>
      (maxValue s' < x \<and> minValue s' \<le> maxValue s' \<longrightarrow> currentValue s' = maxValue s') \<and>
      (maxValue s' < minValue s' \<longrightarrow> currentValue s' = minValue s')"
  using msg_float_fields [of x s] setvalueof_fields [of x s]
  by (auto simp: clamp_def)

theorem setValue_clamps_witness:
  "currentValue (msg_float 5 (loaded (inspectorWith (Some [0, 10]) None ArgsAbsent))) = 5 \<and>
   currentValue (setvalueof (- 3) (loaded (inspectorWith (Some [0, 10]) None ArgsAbsent))) = 0 \<and>
   currentValue (msg_float 20 (loaded (inspectorWith (Some [0, 10]) None ArgsAbsent))) = 10 \<and>
   currentValue (setvalueof 20 (loaded (inspectorWith (Some [0, 10]) None ArgsAbsent))) = 10 \<and>
   currentValue (setvalueof 5 invertedRange) = 10"
proof -
  let ?s = "loaded (inspectorWith (Some [0, 10]) None ArgsAbsent)"
  have r: "minValue (updateRange ?s) = 0" "maxValue (updateRange ?s) = 10"
    by code_simp+
  have i: "minValue (updateRange invertedRange) = 10" "maxValue (updateRange invertedRange) = 0"
    by code_simp+
  show ?thesis
    using setValue_clamps [of 5 ?s] setValue_clamps [of "- 3" ?s] setValue_clamps [of 20 ?s]
      setValue_clamps [of 5 invertedRange] r i
    by simp
qed

text \<open>
  As C1 is worded, a request above \<open>maxValue\<close> ends at \<open>maxValue\<close>. With the range
  \<open>[10, 0]\<close> in the inspector, a request for 20 lies above \<open>maxValue = 0\<close> and ends at 10,
  through \<^verbatim>\<open>msg_float\<close> and through \<^verbatim>\<open>setvalueof\<close> alike.
\<close>

theorem setValue_inverted_range_counterexample:
  "maxValue (msg_float 20 invertedRange) = 0 \<and>
   maxValue (msg_float 20 invertedRange) < 20 \<and>
   currentValue (msg_float 20 invertedRange) = 10 \<and>
   currentValue (msg_float 20 invertedRange) \<noteq> maxValue (msg_float 20 invertedRange) \<and>
   maxValue (setvalueof 20 invertedRange) = 0 \<and>
   currentValue (setvalueof 20 invertedRange) = 10"
  by code_simp

section \<open>The decibel style\<close>

text \<open>
  Claim C2. Under the decibel unit style (style 4) and outside an edit session, the
  display update shows \<open>-inf\<close> and sets \<open>outputValue\<close> to 0 for every
  \<open>currentValue \<le> -80\<close>; for every \<open>currentValue > -80\<close> it shows the value with one decimal
  place followed by \<open>dB\<close> and sets \<open>outputValue\<close> to \<open>10\<close> to the power
  \<open>currentValue / 20\<close>. At \<open>currentValue = -6\<close> the text is \<open>-6.0 dB\<close> and \<open>outputValue\<close> is
  within \<open>0.0001\<close> of \<open>0.5012\<close>. (The earlier variant of the script sends the decibel
  value itself above -80.)
\<close>

theorem decibel_display:
  assumes "parameter_unitstyle (box s) = Some 4" and "\<not> isEditing s"
  shows "(currentValue s \<le> - 80 \<longrightarrow>
            displayText (updateDisplay s) = ''-inf'' \<and> outputValue (updateDisplay s) = 0) \<and>
         (- 80 < currentValue s \<longrightarrow>
            displayText (updateDisplay s) = toFixed 1 (currentValue s) @ '' dB'' \<and>
            outputValue (updateDisplay s) = 10 powr (currentValue s / 20)) \<and>
         (currentValue s = - 6 \<longrightarrow>
            displayText (updateDisplay s) = ''-6.0 dB'' \<and>
            \<bar>outputValue (updateDisplay s) - 5012 / 10000\<bar> < 1 / 10000)"
proof -
  have t: "toFixed 1 (- 6) = ''-6.0''" by code_simp
  show ?thesis
    using assms dbtoa_minus6 t
    by (auto simp: updateDisplay_def getUnitStyle_def unitStyleTable_def dbtoa_def)
qed

theorem decibel_display_witness:
  "displayText (updateDisplay (msg_float (- 80) (loaded (inspectorWith None (Some 4) ArgsAbsent))))
     = ''-inf'' \<and>
   outputValue (updateDisplay (msg_float (- 80) (loaded (inspectorWith None (Some 4) ArgsAbsent))))
     = 0 \<and>
   displayText (updateDisplay (msg_float (- 6) (loaded (inspectorWith None (Some 4) ArgsAbsent))))
     = ''-6.0 dB'' \<and>
   \<bar>outputValue (updateDisplay (msg_float (- 6) (loaded (inspectorWith None (Some 4) ArgsAbsent))))
      - 5012 / 10000\<bar> < 1 / 10000"
proof -
  let ?s = "loaded (inspectorWith None (Some 4) ArgsAbsent)"
  have a: "parameter_unitstyle (box (msg_float (- 80) ?s)) = Some 4"
          "\<not> isEditing (msg_float (- 80) ?s)" "currentValue (msg_float (- 80) ?s) \<le> - 80"
    by code_simp+
  have b: "parameter_unitstyle (box (msg_float (- 6) ?s)) = Some 4"
          "\<not> isEditing (msg_float (- 6) ?s)" "currentValue (msg_float (- 6) ?s) = - 6"
    by code_simp+
  show ?thesis
    using decibel_display [OF a(1,2)] decibel_display [OF b(1,2)] a(3) b(3)
    by blast
qed

text \<open>
  As C2 is worded, under the decibel style every \<open>currentValue \<le> -80\<close> shows \<open>-inf\<close> with
  \<open>outputValue = 0\<close>. With the value at -90 and an edit session open on the buffer \<open>-\<close>,
  the style is the decibel style, the text shown is \<open>-\<close> and \<open>outputValue\<close> is -90, and
  a display update leaves both so.
\<close>

theorem decibel_display_counterexample:
  "parameter_unitstyle (box decibelEdit) = Some 4 \<and>
   currentValue decibelEdit = - 90 \<and> currentValue decibelEdit \<le> - 80 \<and>
   isEditing decibelEdit \<and>
   displayText decibelEdit = ''-'' \<and> outputValue decibelEdit = - 90 \<and>
   displayText (updateDisplay decibelEdit) = ''-'' \<and>
   displayText (updateDisplay decibelEdit) \<noteq> ''-inf'' \<and>
   outputValue (updateDisplay decibelEdit) = - 90 \<and>
   outputValue (updateDisplay decibelEdit) \<noteq> 0"
  by code_simp

section \<open>Setting the value to what it already is\<close>

text \<open>
  Claim C3. When the value is set to the current value, the current value lies within
  the refreshed range and \<open>outputValue\<close> is up to date (it is what the display update
  computes), then \<open>currentValue\<close> and \<open>outputValue\<close> stay as they are, and \<open>outputValue\<close> is
  sent once more to the primary outlet if the widget is active; nothing is sent if it is
  inactive.
\<close>

theorem setValue_current_emits:
  assumes "minValue (updateRange s) \<le> currentValue s"
      and "currentValue s \<le> maxValue (updateRange s)"
      and "outputValue (updateDisplay s) = outputValue s"
  shows "\<forall>s' \<in> {msg_float (currentValue s) s, setvalueof (currentValue s) s}.
           currentValue s' = currentValue s \<and> outputValue s' = outputValue s \<and>
           outlet0 (effects s') =
             outlet0 (effects s) @ (if activeState s \<noteq> 0 then [outputValue s] else [])"
proof -
  define mn mx where "mn = minValue (updateRange s)" and "mx = maxValue (updateRange s)"
  let ?r = "s\<lparr>minValue := mn, maxValue := mx\<rparr>"
  have u: "updateRange s = ?r"
    unfolding mn_def mx_def by (rule updateRange_steady [OF assms(1,2)])
  have c: "clamp mn mx (currentValue s) = currentValue s"
    using assms(1,2) unfolding mn_def mx_def by (simp add: clamp_inside)
  have m: "msg_float (currentValue s) s =
      outputIfActive (emit NotifyClients (emit Redraw (updateDisplay (updateInitialValue ?r))))"
    using c by (simp add: msg_float_def Let_def u updateInitialValue_def split: option.splits)
  have v: "setvalueof (currentValue s) s = outputIfActive (emit Redraw (updateDisplay ?r))"
    using c by (simp add: setvalueof_def Let_def u)
  have o: "outputValue (updateDisplay (updateInitialValue ?r)) = outputValue (updateDisplay s)"
          "outputValue (updateDisplay ?r) = outputValue (updateDisplay s)"
    by (simp_all add: updateDisplay_def updateInitialValue_def getUnitStyle_def
        split: option.splits)
  have "currentValue (msg_float (currentValue s) s) = currentValue s"
       "outputValue (msg_float (currentValue s) s) = outputValue s"
       "outlet0 (effects (msg_float (currentValue s) s)) =
          outlet0 (effects s) @ (if activeState s \<noteq> 0 then [outputValue s] else [])"
    using o(1) assms(3) unfolding m
    by (simp_all add: emit_def updateDisplay_def outputIfActive_def updateInitialValue_def
        outlet0_append split: option.splits)
  moreover have "currentValue (setvalueof (currentValue s) s) = currentValue s"
       "outputValue (setvalueof (currentValue s) s) = outputValue s"
       "outlet0 (effects (setvalueof (currentValue s) s)) =
          outlet0 (effects s) @ (if activeState s \<noteq> 0 then [outputValue s] else [])"
    using o(2) assms(3) unfolding v
    by (simp_all add: emit_def updateDisplay_def outputIfActive_def outlet0_append)
  ultimately show ?thesis by simp
qed

theorem setValue_current_emits_witness:
  "currentValue (loaded (inspectorWith None None ArgsAbsent)) = - 10 \<and>
   outputValue (msg_float (- 10) (loaded (inspectorWith None None ArgsAbsent))) = - 10 \<and>
   outlet0 (effects (msg_float (- 10) (loaded (inspectorWith None None ArgsAbsent)))) = [- 10] \<and>
   outlet0 (effects (setvalueof (- 10) (loaded (inspectorWith None None ArgsAbsent)))) = [- 10]"
proof -
  let ?s = "loaded (inspectorWith None None ArgsAbsent)"
  have a: "minValue (updateRange ?s) \<le> currentValue ?s"
          "currentValue ?s \<le> maxValue (updateRange ?s)"
          "outputValue (updateDisplay ?s) = outputValue ?s"
    by code_simp+
  have c: "currentValue ?s = - 10" "outputValue ?s = - 10" "activeState ?s = 1"
          "outlet0 (effects ?s) = []"
    by code_simp+
  have "\<forall>s' \<in> {msg_float (currentValue ?s) ?s, setvalueof (currentValue ?s) ?s}.
           currentValue s' = currentValue ?s \<and> outputValue s' = outputValue ?s \<and>
           outlet0 (effects s') =
             outlet0 (effects ?s) @ (if activeState ?s \<noteq> 0 then [outputValue ?s] else [])"
    by (rule setValue_current_emits [OF a])
  then have "\<forall>s' \<in> {msg_float (- 10) ?s, setvalueof (- 10) ?s}.
           currentValue s' = - 10 \<and> outputValue s' = - 10 \<and>
           outlet0 (effects s') = [- 10]"
    unfolding c by simp
  then show ?thesis using c(1) by blast
qed

text \<open>
  As C3 is worded, setting the value to the current value sends nothing. The loaded
  widget holds -10 and is active; setting it to -10 sends -10 to the primary outlet.
\<close>

theorem setValue_current_counterexample:
  "currentValue (loaded (inspectorWith None None ArgsAbsent)) = - 10 \<and>
   outlet0 (effects (loaded (inspectorWith None None ArgsAbsent))) = [] \<and>
   outlet0 (effects (msg_float (- 10) (loaded (inspectorWith None None ArgsAbsent)))) = [- 10]"
  by code_simp

section \<open>Refreshing the range\<close>



text \<open>
  Claim C8. When the range refresh reads no range, or an array with fewer than two
  entries, it does nothing: \<open>minValue\<close>, \<open>maxValue\<close> and \<open>currentValue\<close> keep their values
  and no call to the host is made.
\<close>

theorem updateRange_malformed_noop:
  assumes "parameter_range (box s) = None \<or>
           (\<exists>r. parameter_range (box s) = Some r \<and> length r < 2)"
  shows "updateRange s = s \<and> minValue (updateRange s) = minValue s \<and>
         maxValue (updateRange s) = maxValue s \<and>
         currentValue (updateRange s) = currentValue s \<and>
         effects (updateRange s) = effects s"
proof -
  have "updateRange s = s" using assms by (auto simp: updateRange_def)
  then show ?thesis by simp
qed

theorem updateRange_malformed_noop_witness:
  "updateRange (rangeEdited [5] (msg_float 50 (loaded (inspectorWith None None ArgsAbsent))))
     = rangeEdited [5] (msg_float 50 (loaded (inspectorWith None None ArgsAbsent))) \<and>
   updateRange (loaded (inspectorWith None None ArgsAbsent))
     = loaded (inspectorWith None None ArgsAbsent)"
proof -
  let ?s = "rangeEdited [5] (msg_float 50 (loaded (inspectorWith None None ArgsAbsent)))"
  let ?t = "loaded (inspectorWith None None ArgsAbsent)"
  have "parameter_range (box ?s) = Some [5]" by code_simp
  then have a: "parameter_range (box ?s) = None \<or>
           (\<exists>r. parameter_range (box ?s) = Some r \<and> length r < 2)" by simp
  have "parameter_range (box ?t) = None" by code_simp
  then have b: "parameter_range (box ?t) = None \<or>
           (\<exists>r. parameter_range (box ?t) = Some r \<and> length r < 2)" by simp
  show ?thesis
    using updateRange_malformed_noop [OF a] updateRange_malformed_noop [OF b] by simp
qed

section \<open>Committing an edit\<close>

text \<open>
  Claim C5. Committing an open edit session cancels the blink timer, closes the session
  and leaves \<open>minValue\<close> and \<open>maxValue\<close> as they are, whatever the buffer holds. If the
  buffer parses as a number, that number is clamped with \<open>minValue\<close> and \<open>maxValue\<close>,
  becomes \<open>currentValue\<close> and is sent once to the primary outlet when the widget is
  active. If it does not parse, \<open>currentValue\<close> is unchanged and nothing is sent. In both
  cases \<open>outputValue\<close> is computed afresh from \<open>currentValue\<close> and the unit style once the
  session is closed; after a buffer that does not parse it is therefore unchanged
  whenever it already was the unit style's output for \<open>currentValue\<close>, which outside the
  decibel style is \<open>currentValue\<close> itself. Enter and the numeric-keypad Enter commit a
  session of the focused widget.
\<close>

theorem commitEdit_closes_session:
  assumes "isEditing s"
  shows "\<not> isEditing (commitEdit s) \<and> \<not> cursorTimer (commitEdit s) \<and>
         minValue (commitEdit s) = minValue s \<and> maxValue (commitEdit s) = maxValue s \<and>
         outputValue (commitEdit s) =
           snd (unitStyleTable (getUnitStyle s) (currentValue (commitEdit s))) \<and>
         (parseFloat (editText s) = NaN \<longrightarrow>
            currentValue (commitEdit s) = currentValue s \<and>
            outlet0 (effects (commitEdit s)) = outlet0 (effects s) \<and>
            (outputValue s = snd (unitStyleTable (getUnitStyle s) (currentValue s)) \<longrightarrow>
               outputValue (commitEdit s) = outputValue s) \<and>
            (getUnitStyle s \<noteq> 4 \<and> outputValue s = currentValue s \<longrightarrow>
               outputValue (commitEdit s) = outputValue s)) \<and>
         (parseFloat (editText s) \<noteq> NaN \<longrightarrow>
            outlet0 (effects (commitEdit s)) = outlet0 (effects s) @
              (if activeState s \<noteq> 0 then [currentValue (commitEdit s)] else [])) \<and>
         (\<forall>v. parseFloat (editText s) = Finite v \<longrightarrow>
            currentValue (commitEdit s) = clamp (minValue s) (maxValue s) v \<and>
            (minValue s \<le> maxValue s \<longrightarrow>
               minValue s \<le> currentValue (commitEdit s) \<and>
               currentValue (commitEdit s) \<le> maxValue s)) \<and>
         (hasFocus s \<longrightarrow> keyInput 13 s = commitEdit s \<and> keyInput 3 s = commitEdit s)"
proof -
  note a = commitEdit_always [OF assms]
  have k: "hasFocus s \<longrightarrow> keyInput 13 s = commitEdit s \<and> keyInput 3 s = commitEdit s"
    using assms by (simp add: keyInput_def)
  have n: "parseFloat (editText s) = NaN \<longrightarrow>
            currentValue (commitEdit s) = currentValue s \<and>
            outlet0 (effects (commitEdit s)) = outlet0 (effects s) \<and>
            (outputValue s = snd (unitStyleTable (getUnitStyle s) (currentValue s)) \<longrightarrow>
               outputValue (commitEdit s) = outputValue s) \<and>
            (getUnitStyle s \<noteq> 4 \<and> outputValue s = currentValue s \<longrightarrow>
               outputValue (commitEdit s) = outputValue s)"
    using commitEdit_unparseable [OF assms] a(5)
    by (simp add: outlet0_append unitStyleTable_passes)
  have p: "parseFloat (editText s) \<noteq> NaN \<longrightarrow>
            outlet0 (effects (commitEdit s)) = outlet0 (effects s) @
              (if activeState s \<noteq> 0 then [currentValue (commitEdit s)] else [])"
    using commitEdit_parseable [OF assms] by (simp add: outlet0_append)
  have f: "\<forall>v. parseFloat (editText s) = Finite v \<longrightarrow>
            currentValue (commitEdit s) = clamp (minValue s) (maxValue s) v \<and>
            (minValue s \<le> maxValue s \<longrightarrow>
               minValue s \<le> currentValue (commitEdit s) \<and>
               currentValue (commitEdit s) \<le> maxValue s)"
    using commitEdit_finite [OF assms] by (simp add: clamp_bounds)
  show ?thesis using a n p f k by blast
qed

theorem commitEdit_closes_session_witness:
  "isEditing typed42 \<and> parseFloat (editText typed42) = Finite 42 \<and>
   currentValue (commitEdit typed42) = 42 \<and> \<not> isEditing (commitEdit typed42) \<and>
   outlet0 (effects (commitEdit typed42)) = [0, 42] \<and>
   isEditing decibelEdit \<and> parseFloat (editText decibelEdit) = NaN \<and>
   currentValue (commitEdit decibelEdit) = - 90 \<and> \<not> isEditing (commitEdit decibelEdit) \<and>
   outlet0 (effects (commitEdit decibelEdit)) = [0] \<and>
   keyInput 13 typed42 = commitEdit typed42"
proof -
  have a: "isEditing typed42" "parseFloat (editText typed42) = Finite 42"
          "minValue typed42 = 0" "maxValue typed42 = 100" "activeState typed42 = 1"
          "outlet0 (effects typed42) = [0]" "hasFocus typed42"
    by code_simp+
  have b: "isEditing decibelEdit" "parseFloat (editText decibelEdit) = NaN"
          "currentValue decibelEdit = - 90" "outlet0 (effects decibelEdit) = [0]"
    by code_simp+
  have c: "clamp 0 100 42 = 42" by (simp add: clamp_def)
  show ?thesis
    using commitEdit_closes_session [OF a(1)] commitEdit_closes_session [OF b(1)] a b c
    by simp
qed

text \<open>
  As C5 is worded, a buffer that does not parse leaves \<open>outputValue\<close> unchanged. Under
  the decibel style with the value at -90, the edit session on the buffer \<open>-\<close> holds
  \<open>outputValue = -90\<close>; the Enter key closes it on a buffer that does not parse, and
  \<open>outputValue\<close> is 0 afterwards.
\<close>

theorem commitEdit_output_counterexample:
  "isEditing decibelEdit \<and> editText decibelEdit = ''-'' \<and>
   parseFloat (editText decibelEdit) = NaN \<and>
   outputValue decibelEdit = - 90 \<and>
   outputValue (commitEdit decibelEdit) = 0 \<and>
   outputValue (keyInput 13 decibelEdit) = 0"
  by code_simp

section \<open>Dragging\<close>

text \<open>
  Claim C6. While a drag is on, a pointer move that finds the tracked height
  \<open>lastDragY\<close> more than 30 away from zero puts the system cursor back at the stored
  origin and sets \<open>lastDragY\<close> to the new height, and does nothing else: \<open>currentValue\<close>
  is unchanged and nothing goes to the primary outlet. Any other pointer move during a
  drag sets \<open>currentValue\<close> to \<open>currentValue + (lastDragY - y) * step\<close>, clamped with
  \<open>minValue\<close> and \<open>maxValue\<close>, where the step is the fine step when the modifier is held
  and the normal step otherwise. (The earlier variant of the script has the second rule
  only.)
\<close>

theorem ondrag_boundary_recovery:
  assumes "isDragging s"
  shows "(30 < \<bar>lastDragY s\<bar> \<longrightarrow>
            currentValue (ondrag y button shift s) = currentValue s \<and>
            lastDragY (ondrag y button shift s) = y \<and>
            effects (ondrag y button shift s) =
              effects s @ [HideCursor, PUpdate (fst (cursorOrigin s)) (snd (cursorOrigin s))] \<and>
            outlet0 (effects (ondrag y button shift s)) = outlet0 (effects s)) \<and>
         (\<bar>lastDragY s\<bar> \<le> 30 \<longrightarrow>
            currentValue (ondrag y button shift s) =
              clamp (minValue s) (maxValue s)
                (currentValue s +
                   (lastDragY s - y) * (if shift then fineStepSize s else normalStepSize s)) \<and>
            lastDragY (ondrag y button shift s) = y)"
  using assms by (simp add: ondrag_def step_defs outlet0_append)

theorem ondrag_boundary_recovery_witness:
  "currentValue pressedAt10 = 0 \<and>
   currentValue (ondrag 0 True False pressedAt10) = 5 \<and>
   currentValue (ondrag 0 True True pressedAt10) = 2 / 10 \<and>
   lastDragY draggedTo35 = 35 \<and>
   currentValue (ondrag 45 True False draggedTo35) = currentValue draggedTo35 \<and>
   lastDragY (ondrag 45 True False draggedTo35) = 45 \<and>
   outlet0 (effects (ondrag 45 True False draggedTo35)) = outlet0 (effects draggedTo35)"
proof -
  have a: "isDragging pressedAt10" "lastDragY pressedAt10 = 10" "currentValue pressedAt10 = 0"
          "minValue pressedAt10 = - 100" "maxValue pressedAt10 = 100"
          "normalStepSize pressedAt10 = 1 / 2" "fineStepSize pressedAt10 = 2 / 100"
    by code_simp+
  have b: "isDragging draggedTo35" "lastDragY draggedTo35 = 35"
          "30 < \<bar>lastDragY draggedTo35\<bar>"
    by code_simp+
  have n: "currentValue (ondrag 0 True False pressedAt10) = 5"
    using ondrag_boundary_recovery [OF a(1), of 0 True False] a
    by (simp add: clamp_def)
  have f: "currentValue (ondrag 0 True True pressedAt10) = 2 / 10"
    using ondrag_boundary_recovery [OF a(1), of 0 True True] a
    by (simp add: clamp_def)
  show ?thesis
    using ondrag_boundary_recovery [OF b(1), of 45 True False] a(3) b(2,3) n f
    by blast
qed

section \<open>Focus\<close>

text \<open>
  Claim C7. A pointer-down inside the widget sets \<open>hasFocus\<close> (and the clicked-inside
  flag). A global left click that arrives while the widget has focus schedules a
  deferred check. When that check runs and finds the clicked-inside flag not set, it
  clears \<open>hasFocus\<close> and commits an open edit session, so that no session is open
  afterwards; when it finds the flag set, it keeps the focus and resets the flag. The
  pointer leaving the widget never changes \<open>hasFocus\<close>.
\<close>

theorem focus_protocol:
  "hasFocus (onclick y s) \<and> clickedInside (onclick y s) \<and>
   (hasFocus s \<longrightarrow>
      focusTasks (globalMouse True gx gy s) = Suc (focusTasks s) \<and>
      hasFocus (globalMouse True gx gy s)) \<and>
   (0 < focusTasks s \<and> \<not> clickedInside s \<longrightarrow>
      \<not> hasFocus (focusTaskRuns s) \<and> \<not> isEditing (focusTaskRuns s) \<and>
      (isEditing s \<longrightarrow>
         focusTaskRuns s =
           (commitEdit (emit Redraw (s\<lparr>focusTasks := focusTasks s - 1, hasFocus := False\<rparr>)))
             \<lparr>clickedInside := False\<rparr>)) \<and>
   (0 < focusTasks s \<and> clickedInside s \<longrightarrow>
      hasFocus (focusTaskRuns s) = hasFocus s \<and> \<not> clickedInside (focusTaskRuns s)) \<and>
   hasFocus (onidleout s) = hasFocus s"
  by (simp add: onclick_def globalMouse_def focusTaskRuns_def focusCheck_def onidleout_def
      commitEdit_def step_defs split: option.splits parsed.splits)

theorem focus_protocol_witness:
  "hasFocus focusedEditing \<and> isEditing focusedEditing \<and>
   hasFocus (onidleout focusedEditing) \<and>
   focusTasks clickedElsewhere = Suc (focusTasks focusedEditing) \<and>
   \<not> hasFocus (focusTaskRuns clickedElsewhere) \<and>
   \<not> isEditing (focusTaskRuns clickedElsewhere) \<and>
   currentValue (focusTaskRuns clickedElsewhere) = 4"
proof -
  have a: "hasFocus focusedEditing" "isEditing focusedEditing"
    by code_simp+
  have b: "0 < focusTasks clickedElsewhere" "\<not> clickedInside clickedElsewhere"
          "currentValue (focusTaskRuns clickedElsewhere) = 4"
    by code_simp+
  have c: "globalMouse True 300 400 focusedEditing = clickedElsewhere"
    by (simp add: clickedElsewhere_def)
  show ?thesis
    using focus_protocol [of 5 focusedEditing 300 400]
      focus_protocol [of 5 clickedElsewhere 300 400] a b
    unfolding c by blast
qed

section \<open>Justification\<close>



section \<open>Restoring the saved state\<close>

text \<open>
  Claim C10. \<^verbatim>\<open>restoreInternalState\<close> assigns \<open>currentValue\<close>, \<open>minValue\<close>, \<open>maxValue\<close>,
  \<open>initialValue\<close>, \<open>textJustification\<close> and \<open>activeState\<close> from its arguments as they are:
  the value is not clamped, so a stored value outside the stored range is restored as it
  was stored, and nothing is sent to the primary outlet.
\<close>

theorem restoreInternalState_verbatim:
  "currentValue (restoreInternalState v mn mx initial justification act s) = v \<and>
   minValue (restoreInternalState v mn mx initial justification act s) = mn \<and>
   maxValue (restoreInternalState v mn mx initial justification act s) = mx \<and>
   initialValue (restoreInternalState v mn mx initial justification act s) = initial \<and>
   textJustification (restoreInternalState v mn mx initial justification act s) = justification \<and>
   activeState (restoreInternalState v mn mx initial justification act s) = act \<and>
   outlet0 (effects (restoreInternalState v mn mx initial justification act s))
     = outlet0 (effects s) \<and>
   (v < mn \<or> mx < v \<longrightarrow>
      currentValue (restoreInternalState v mn mx initial justification act s) = v)"
  by (simp add: restoreInternalState_def emit_def updateDisplay_def outlet0_append)

theorem restoreInternalState_verbatim_witness:
  "(10::real) < 500 \<and>
   currentValue (restoreInternalState 500 0 10 0 ''left'' 1
     (loaded (inspectorWith None None ArgsAbsent))) = 500 \<and>
   maxValue (restoreInternalState 500 0 10 0 ''left'' 1
     (loaded (inspectorWith None None ArgsAbsent))) = 10 \<and>
   outlet0 (effects (restoreInternalState 500 0 10 0 ''left'' 1
     (loaded (inspectorWith None None ArgsAbsent)))) = []"
proof -
  have e: "outlet0 (effects (loaded (inspectorWith None None ArgsAbsent))) = []"
    by code_simp
  show ?thesis
    using restoreInternalState_verbatim
      [of 500 0 10 0 "''left''" 1 "loaded (inspectorWith None None ArgsAbsent)"] e
    by simp
qed

end
